theory Spec2Isabelle
  imports Main "HOL-Library.Word"
begin

section \<open>Go values and the state of a run\<close>

text \<open>
  The package \<^verbatim>\<open>rushb\<close> (file \<^verbatim>\<open>rushb.go\<close>) wraps a \<^verbatim>\<open>*testing.T\<close> in a
  \<^verbatim>\<open>Suite\<close> that counts checks, prints an indented trace and turns panics of the
  test bodies into recorded failures. The model below follows the file top to bottom.

  \<^verbatim>\<open>type suiteError struct { critical bool; msg string }\<close>
\<close>

record suiteError =
  critical :: bool
  msg :: string

text \<open>
  The dynamic values an \<^verbatim>\<open>interface{}\<close> holds in this program: the arguments of
  \<^verbatim>\<open>Assert\<close>, the values handed to \<^verbatim>\<open>panic\<close> and the errors a test handler returns.
  Go's \<^verbatim>\<open>int\<close> is taken at 64 bits. An \<^verbatim>\<open>error\<close> made by \<^verbatim>\<open>errors.New\<close> is a pointer:
  its address and the message behind it (one address holds one message, so two such
  pointers are the same pointer exactly when the two values of the model are equal).
  \<^verbatim>\<open>[]int\<close> stands for the dynamic types that \<^verbatim>\<open>==\<close> cannot compare, and
  \<open>VRuntimeError\<close> is a \<^verbatim>\<open>runtime.Error\<close> raised by the Go runtime itself. The \<^verbatim>\<open>nil\<close>
  interface is \<open>None\<close>.
\<close>

datatype gvalue =
    VBool bool
  | VInt "64 word"
  | VString string
  | VSuiteError suiteError
  | VErrorPtr nat string
  | VIntSlice "64 word list"
  | VRuntimeError string

type_synonym iface = "gvalue option"

text \<open>
  The host reporting facility is \<^verbatim>\<open>*testing.T\<close> of the standard library (the suite is
  bound to a live one, on the goroutine of the test). Its state is the transcript of the
  calls made on it: \<^verbatim>\<open>t.Error(v)\<close> logs and marks the test failed
  and returns; \<^verbatim>\<open>t.Fatal(v)\<close> logs, marks the test failed and stops the goroutine with
  \<^verbatim>\<open>runtime.Goexit\<close>.
\<close>

datatype report = ErrorCall gvalue | FatalCall gvalue

text \<open>
  \<^verbatim>\<open>type Suite struct { T *testing.T; indent, passed, failed, skiped int }\<close>.
  The run's state is the suite together with what has been written to standard output.
\<close>

record Suite =
  T :: "report list"
  indent :: "64 word"
  passed :: "64 word"
  failed :: "64 word"
  skiped :: "64 word"

record world = Suite +
  stdout :: string

text \<open>
  The colour backend \<^verbatim>\<open>github.com/fatih/color\<close> is not part of the repository: the
  functions the file calls are parameters of the model. \<open>BoldSprintf\<close> is
  \<^verbatim>\<open>color.New(color.Bold).Sprintf\<close> applied to one argument (the format).
\<close>

record color_pkg =
  HiGreenString :: "string \<Rightarrow> string"
  HiRedString :: "string \<Rightarrow> string"
  HiBlueString :: "string \<Rightarrow> string"
  HiBlackString :: "string \<Rightarrow> string"
  BoldSprintf :: "string \<Rightarrow> string"

section \<open>Control flow: return, panic, Goexit, defer and recover\<close>

text \<open>
  A Go call ends in one of four ways: it returns; it panics with a value; the goroutine
  is being stopped by \<^verbatim>\<open>runtime.Goexit\<close>, which runs the deferred calls and cannot be
  recovered; or a deferred call has panicked while the goroutine was being stopped, so
  that a panic is unwinding with the stop still pending behind it (\<open>PanicInGoexit\<close>:
  since Go 1.14 a \<^verbatim>\<open>recover\<close> ends that panic and the stop then resumes). The value of a
  panic is not \<^verbatim>\<open>nil\<close> (since Go 1.21 \<^verbatim>\<open>panic(nil)\<close> raises a
  \<^verbatim>\<open>runtime.PanicNilError\<close>; under an older release a \<^verbatim>\<open>panic(nil)\<close> is outside this
  model). A callback is a function from the state at its call to its exit and the state
  it leaves; the suite it works on is part of that state, whether the callback gets it
  as an argument or holds it in its closure.
\<close>

datatype 'a exit = Return 'a | Panic gvalue | Goexit | PanicInGoexit gvalue

type_synonym 'a go = "world \<Rightarrow> 'a exit \<times> world"

definition return_go :: "'a \<Rightarrow> 'a go" where
  "return_go x s = (Return x, s)"

definition bind_go :: "'a go \<Rightarrow> ('a \<Rightarrow> 'b go) \<Rightarrow> 'b go" where
  "bind_go m k s =
     (case m s of
        (Return x, s1) \<Rightarrow> k x s1
      | (Panic v, s1) \<Rightarrow> (Panic v, s1)
      | (Goexit, s1) \<Rightarrow> (Goexit, s1)
      | (PanicInGoexit v, s1) \<Rightarrow> (PanicInGoexit v, s1))"

definition then_go :: "'a go \<Rightarrow> 'b go \<Rightarrow> 'b go" where
  "then_go m k = bind_go m (\<lambda>_. k)"

text \<open>The builtin \<^verbatim>\<open>panic(v)\<close>.\<close>

definition go_panic :: "gvalue \<Rightarrow> 'a go" where
  "go_panic v s = (Panic v, s)"

definition assign :: "(world \<Rightarrow> world) \<Rightarrow> unit go" where
  "assign f s = (Return (), f s)"

text \<open>
  \<open>stopping e\<close>: with the exit \<open>e\<close> a \<^verbatim>\<open>runtime.Goexit\<close> is pending. \<open>resume_Goexit x\<close> is
  how a function ends whose deferred call ended with \<open>x\<close> while a \<^verbatim>\<open>runtime.Goexit\<close> was
  pending and no panic is left behind it: the stop goes on when the call returned, and
  a panic it raised unwinds with the stop pending.
\<close>

fun stopping :: "'a exit \<Rightarrow> bool" where
  "stopping (Return _) = False"
| "stopping (Panic _) = False"
| "stopping Goexit = True"
| "stopping (PanicInGoexit _) = True"

fun resume_Goexit :: "'a exit \<Rightarrow> 'b exit" where
  "resume_Goexit (Return _) = Goexit"
| "resume_Goexit (Panic v) = PanicInGoexit v"
| "resume_Goexit Goexit = Goexit"
| "resume_Goexit (PanicInGoexit v) = PanicInGoexit v"

text \<open>
  \<^verbatim>\<open>defer func() { d }()\<close> where \<open>d\<close> does not call \<^verbatim>\<open>recover\<close>: \<open>d\<close> runs when the
  body has ended, however it ended. When \<open>d\<close> returns the body's exit stands. A panic
  of \<open>d\<close> takes the place of the body's panic, and a pending \<^verbatim>\<open>runtime.Goexit\<close> stays
  pending behind it. A \<^verbatim>\<open>runtime.Goexit\<close> called by \<open>d\<close> stops the goroutine.
\<close>

definition defer_go :: "unit go \<Rightarrow> 'a go \<Rightarrow> 'a go" where
  "defer_go d body s =
     (case body s of (e, s1) \<Rightarrow>
        (case d s1 of
           (Return _, s2) \<Rightarrow> (e, s2)
         | (Panic v, s2) \<Rightarrow> ((if stopping e then PanicInGoexit v else Panic v), s2)
         | (Goexit, s2) \<Rightarrow> (Goexit, s2)
         | (PanicInGoexit v, s2) \<Rightarrow> (PanicInGoexit v, s2)))"

text \<open>
  \<^verbatim>\<open>defer func() { err := recover(); d }()\<close> in a function with result \<open>r\<close>: the
  deferred closure receives what \<^verbatim>\<open>recover()\<close> returns (the value of the panic that is
  unwinding, \<^verbatim>\<open>nil\<close> when there is none) and the current value of the result, and what
  it returns here is the result it leaves. \<open>r0\<close> is the result's value when the body has
  not reached its \<^verbatim>\<open>return\<close>. A recovered panic ends: with no \<^verbatim>\<open>runtime.Goexit\<close> pending
  the function ends as the closure ends, so it returns normally with that result when
  the closure returns. With a \<^verbatim>\<open>runtime.Goexit\<close> pending (\<^verbatim>\<open>recover()\<close> is \<^verbatim>\<open>nil\<close> when no
  panic is unwinding on top of it) the stop goes on after the closure: the function
  does not return.
\<close>

definition defer_recover :: "(iface \<Rightarrow> 'a \<Rightarrow> 'a go) \<Rightarrow> 'a \<Rightarrow> 'a go \<Rightarrow> 'a go" where
  "defer_recover d r0 body s =
     (case body s of
        (Return r, s1) \<Rightarrow> d None r s1
      | (Panic v, s1) \<Rightarrow> d (Some v) r0 s1
      | (Goexit, s1) \<Rightarrow>
          (case d None r0 s1 of (x, s2) \<Rightarrow> (resume_Goexit x, s2))
      | (PanicInGoexit v, s1) \<Rightarrow>
          (case d (Some v) r0 s1 of (x, s2) \<Rightarrow> (resume_Goexit x, s2)))"

definition T_Error :: "gvalue \<Rightarrow> unit go" where
  "T_Error v s = (Return (), s\<lparr>T := T s @ [ErrorCall v]\<rparr>)"

definition T_Fatal :: "gvalue \<Rightarrow> unit go" where
  "T_Fatal v s = (Goexit, s\<lparr>T := T s @ [FatalCall v]\<rparr>)"

section \<open>Formatting\<close>

text \<open>
  The verb \<^verbatim>\<open>%v\<close> of package \<^verbatim>\<open>fmt\<close> on the values of the model: an \<^verbatim>\<open>int\<close> in decimal
  with its sign (\<open>digit_char\<close> is only called below 10), a string as it is, an \<^verbatim>\<open>error\<close> by
  its message, a struct as its fields in braces, a slice as its elements in brackets.
\<close>

definition digit_char :: "nat \<Rightarrow> char" where
  "digit_char d = ''0123456789'' ! d"

fun show_nat :: "nat \<Rightarrow> string" where
  "show_nat n = (if n < 10 then [digit_char n] else show_nat (n div 10) @ [digit_char (n mod 10)])"

declare show_nat.simps [simp del]

definition show_int :: "int \<Rightarrow> string" where
  "show_int i = (if i < 0 then CHR ''-'' # show_nat (nat (- i)) else show_nat (nat i))"

definition fmt_int :: "64 word \<Rightarrow> string" where
  "fmt_int w = show_int (sint w)"

fun join_space :: "string list \<Rightarrow> string" where
  "join_space [] = []"
| "join_space [x] = x"
| "join_space (x # y # ys) = x @ '' '' @ join_space (y # ys)"

fun fmt_v :: "iface \<Rightarrow> string" where
  "fmt_v None = ''<nil>''"
| "fmt_v (Some (VBool b)) = (if b then ''true'' else ''false'')"
| "fmt_v (Some (VInt n)) = fmt_int n"
| "fmt_v (Some (VString x)) = x"
| "fmt_v (Some (VSuiteError e)) =
     ''{'' @ (if critical e then ''true'' else ''false'') @ '' '' @ msg e @ ''}''"
| "fmt_v (Some (VErrorPtr a m)) = m"
| "fmt_v (Some (VIntSlice xs)) = ''['' @ join_space (map fmt_int xs) @ '']''"
| "fmt_v (Some (VRuntimeError m)) = m"

text \<open>
  \<^verbatim>\<open>actual != expect\<close> on two \<^verbatim>\<open>interface{}\<close> values: they differ when their dynamic
  types differ or their values do (each constructor of \<open>gvalue\<close> is one dynamic type, so
  this is inequality of the model's values); comparing two values of one uncomparable
  dynamic type is a run-time panic. The result is \<open>Inl\<close> of the panic's value or \<open>Inr\<close>
  of the comparison's.
\<close>

fun iface_neq :: "iface \<Rightarrow> iface \<Rightarrow> gvalue + bool" where
  "iface_neq (Some (VIntSlice xs)) (Some (VIntSlice ys)) =
     Inl (VRuntimeError ''runtime error: comparing uncomparable type []int'')"
| "iface_neq a b = Inr (a \<noteq> b)"

section \<open>The printer\<close>

text \<open>
  \<^verbatim>\<open>func (s *Suite) println(content string)\<close>: \<^verbatim>\<open>strings.Repeat(" ", s.indent)\<close> panics
  on a negative count; otherwise one line goes to standard output (\<^verbatim>\<open>fmt.Println\<close>, whose
  error is dropped). Limits of memory are not modelled.
\<close>

definition indent_prefix :: "world \<Rightarrow> string" where
  "indent_prefix s = replicate (nat (sint (indent s))) CHR '' ''"

definition println :: "string \<Rightarrow> unit go" where
  "println content s =
     (if sint (indent s) < 0 then go_panic (VString ''strings: negative Repeat count'') s
      else (Return (), s\<lparr>stdout := stdout s @ indent_prefix s @ content @ [CHR 0x0A]\<rparr>))"

definition title :: "color_pkg \<Rightarrow> string \<Rightarrow> unit go" where
  "title color content = println (BoldSprintf color content)"

definition ok :: "color_pkg \<Rightarrow> string \<Rightarrow> unit go" where
  "ok color content = println (''['' @ HiGreenString color ''Done'' @ ''] '' @ content)"

definition fail :: "color_pkg \<Rightarrow> string \<Rightarrow> unit go" where
  "fail color content = println (''['' @ HiRedString color ''Fail'' @ ''] '' @ content)"

definition skip :: "color_pkg \<Rightarrow> string \<Rightarrow> unit go" where
  "skip color content =
     println (''['' @ HiBlueString color ''Skip'' @ ''] '' @ HiBlackString color content)"

definition info :: "color_pkg \<Rightarrow> string \<Rightarrow> unit go" where
  "info color content = println (HiBlackString color content)"

section \<open>The suite\<close>

text \<open>
  \<^verbatim>\<open>func (s *Suite) Title(name string, test func())\<close>. The deferred closure takes 2
  from the indentation whatever happened before it.
\<close>

definition Title :: "color_pkg \<Rightarrow> string \<Rightarrow> unit go \<Rightarrow> unit go" where
  "Title color name test =
     defer_go (assign (\<lambda>s. s\<lparr>indent := indent s - 2\<rparr>))
       (then_go (println '''')
       (then_go (title color name)
       (then_go (println '''')
       (then_go (assign (\<lambda>s. s\<lparr>indent := indent s + 2\<rparr>))
        test))))"

text \<open>
  \<^verbatim>\<open>func (s *Suite) Start(name string, test func())\<close>. The five \<^verbatim>\<open>println\<close> calls of the
  deferred closure are \<open>summary\<close>; the counters are read when the closure runs.
\<close>

definition summary :: "color_pkg \<Rightarrow> unit go" where
  "summary color =
     then_go (println (CHR 0x0A # ''=== FINISHED'' @ [CHR 0x0A]))
    (then_go (\<lambda>s. println (HiGreenString color ''Passed'' @ '': '' @ fmt_int (passed s)) s)
    (then_go (\<lambda>s. println (HiRedString color ''Failed'' @ '': '' @ fmt_int (failed s)) s)
    (then_go (\<lambda>s. println (HiBlueString color ''Skiped'' @ '': '' @ fmt_int (skiped s)) s)
             (\<lambda>s. println (CHR 0x0A # ''Total: '' @ fmt_int (passed s + failed s + skiped s)
                               @ [CHR 0x0A]) s))))"

definition Start :: "color_pkg \<Rightarrow> string \<Rightarrow> unit go \<Rightarrow> unit go" where
  "Start color name test = defer_go (summary color) (Title color name test)"

text \<open>
  \<^verbatim>\<open>func (s *Suite) Check(name string, test SuiteTestHandler)\<close>, where a handler is
  \<^verbatim>\<open>func(s *Suite) error\<close>. The body has no \<^verbatim>\<open>return\<close> after \<^verbatim>\<open>s.T.Error(err)\<close>: it
  goes on to \<^verbatim>\<open>s.passed++\<close>. The deferred closure switches on the type of the
  recovered value.
\<close>

definition Check :: "color_pkg \<Rightarrow> string \<Rightarrow> iface go \<Rightarrow> unit go" where
  "Check color name test =
     defer_recover
       (\<lambda>err _.
          case err of
            None \<Rightarrow> return_go ()
          | Some v \<Rightarrow>
              then_go (assign (\<lambda>s. s\<lparr>failed := failed s + 1\<rparr>))
             (then_go (fail color name)
               (case v of
                  VSuiteError e \<Rightarrow>
                    if critical e then T_Fatal (VString (msg e)) else T_Error (VString (msg e))
                | _ \<Rightarrow> T_Error v)))
       ()
       (bind_go test (\<lambda>err.
          then_go
            (case err of
               Some v \<Rightarrow>
                 then_go (assign (\<lambda>s. s\<lparr>failed := failed s + 1\<rparr>))
                (then_go (fail color name)
                         (T_Error v))
             | None \<Rightarrow> return_go ())
         (then_go (assign (\<lambda>s. s\<lparr>passed := passed s + 1\<rparr>))
                  (ok color name))))"

text \<open>
  \<^verbatim>\<open>func (s *Suite) Critical(name string, test SuiteTestHandler)\<close>. The local closure
  \<^verbatim>\<open>fail\<close> of the source is \<open>Critical_fail\<close>.
\<close>

definition Critical_fail :: "color_pkg \<Rightarrow> string \<Rightarrow> gvalue \<Rightarrow> unit go" where
  "Critical_fail color name err =
     then_go (assign (\<lambda>s. s\<lparr>failed := failed s + 1\<rparr>))
    (then_go (fail color name)
             (T_Fatal err))"

definition Critical :: "color_pkg \<Rightarrow> string \<Rightarrow> iface go \<Rightarrow> unit go" where
  "Critical color name test =
     defer_recover
       (\<lambda>err _.
          case err of
            None \<Rightarrow> return_go ()
          | Some v \<Rightarrow> Critical_fail color name v)
       ()
       (bind_go test (\<lambda>err.
          then_go
            (case err of
               Some v \<Rightarrow> Critical_fail color name v
             | None \<Rightarrow> return_go ())
         (then_go (assign (\<lambda>s. s\<lparr>passed := passed s + 1\<rparr>))
                  (ok color name))))"

text \<open>\<^verbatim>\<open>func (s *Suite) Skip(name string, test SuiteTestHandler)\<close>\<close>

definition Skip :: "color_pkg \<Rightarrow> string \<Rightarrow> iface go \<Rightarrow> unit go" where
  "Skip color name test =
     then_go (assign (\<lambda>s. s\<lparr>skiped := skiped s + 1\<rparr>))
             (skip color name)"

text \<open>
  \<^verbatim>\<open>func (s *Suite) Try(try func(), catch func(err interface{})) (result bool)\<close>.
  \<^verbatim>\<open>catch\<close> may be \<^verbatim>\<open>nil\<close>; \<^verbatim>\<open>return result\<close> returns the zero value \<^verbatim>\<open>false\<close>, which
  the deferred closure then overwrites.
\<close>

definition Try :: "unit go \<Rightarrow> (gvalue \<Rightarrow> unit go) option \<Rightarrow> bool go" where
  "Try try catch =
     defer_recover
       (\<lambda>err result.
          case err of
            Some v \<Rightarrow>
              then_go (case catch of Some c \<Rightarrow> c v | None \<Rightarrow> return_go ())
                      (return_go False)
          | None \<Rightarrow> return_go True)
       False
       (then_go try (return_go False))"

text \<open>\<^verbatim>\<open>func (s *Suite) Assert(actual interface{}, expect interface{})\<close>\<close>

definition Assert :: "iface \<Rightarrow> iface \<Rightarrow> unit go" where
  "Assert actual expect =
     (case iface_neq actual expect of
        Inl e \<Rightarrow> go_panic e
      | Inr True \<Rightarrow>
          go_panic (VString (''Expect '' @ [CHR 0x22] @ fmt_v expect @ [CHR 0x22] @ '', got ''
                             @ [CHR 0x22] @ fmt_v actual @ [CHR 0x22]))
      | Inr False \<Rightarrow> return_go ())"

text \<open>\<^verbatim>\<open>func (s *Suite) Info(content string)\<close>\<close>

definition Info :: "color_pkg \<Rightarrow> string \<Rightarrow> unit go" where
  "Info color content = info color content"

text \<open>
  \<^verbatim>\<open>func (s *Suite) Fail(content string)\<close> and \<^verbatim>\<open>func (s *Suite) Fatal(content string)\<close>
  panic with a \<^verbatim>\<open>suiteError\<close>.
\<close>

definition Fail :: "string \<Rightarrow> 'a go" where
  "Fail content = go_panic (VSuiteError \<lparr>critical = False, msg = content\<rparr>)"

definition Fatal :: "string \<Rightarrow> 'a go" where
  "Fatal content = go_panic (VSuiteError \<lparr>critical = True, msg = content\<rparr>)"

text \<open>
  \<^verbatim>\<open>func NewSuite(t *testing.T) *Suite\<close> returns \<^verbatim>\<open>&Suite{T: t}\<close>: every counter and
  the indentation are zero. \<open>NewSuite t out\<close> is the state of a run that starts with
  the transcript \<open>t\<close> of the host and \<open>out\<close> already on standard output.
\<close>

definition NewSuite :: "report list \<Rightarrow> string \<Rightarrow> world" where
  "NewSuite t out = \<lparr>T = t, indent = 0, passed = 0, failed = 0, skiped = 0, stdout = out\<rparr>"

text \<open>
  Two abbreviations for the statements below, read off \<^verbatim>\<open>Title\<close> and \<^verbatim>\<open>Start\<close>:
  \<open>Title_enter color name s\<close> is the state in which \<^verbatim>\<open>Title\<close>, called in \<open>s\<close>, calls its
  body (three lines printed, the indentation raised by 2), and \<open>summary_text color s\<close>
  is what the five \<^verbatim>\<open>println\<close> calls of the closure deferred by \<^verbatim>\<open>Start\<close> write when they
  run in \<open>s\<close>.
\<close>

definition Title_enter :: "color_pkg \<Rightarrow> string \<Rightarrow> world \<Rightarrow> world" where
  "Title_enter color name s =
     s\<lparr>stdout := stdout s @ indent_prefix s @ [CHR 0x0A]
                    @ indent_prefix s @ BoldSprintf color name @ [CHR 0x0A]
                    @ indent_prefix s @ [CHR 0x0A],
       indent := indent s + 2\<rparr>"

definition summary_text :: "color_pkg \<Rightarrow> world \<Rightarrow> string" where
  "summary_text color s =
     indent_prefix s @ [CHR 0x0A] @ ''=== FINISHED'' @ [CHR 0x0A, CHR 0x0A]
   @ indent_prefix s @ HiGreenString color ''Passed'' @ '': '' @ fmt_int (passed s) @ [CHR 0x0A]
   @ indent_prefix s @ HiRedString color ''Failed'' @ '': '' @ fmt_int (failed s) @ [CHR 0x0A]
   @ indent_prefix s @ HiBlueString color ''Skiped'' @ '': '' @ fmt_int (skiped s) @ [CHR 0x0A]
   @ indent_prefix s @ [CHR 0x0A] @ ''Total: '' @ fmt_int (passed s + failed s + skiped s)
       @ [CHR 0x0A, CHR 0x0A]"

text \<open>
  A colour backend to evaluate the model with: each function wraps its argument in an
  escape sequence, as \<^verbatim>\<open>fatih/color\<close> does once \<^verbatim>\<open>color.NoColor\<close> is \<^verbatim>\<open>false\<close>. Format
  verbs in a title are left as they are.
\<close>

definition sgr :: "string \<Rightarrow> string \<Rightarrow> string" where
  "sgr code x = CHR 0x1B # ''['' @ code @ ''m'' @ x @ CHR 0x1B # ''[0m''"

definition ansi :: color_pkg where
  "ansi = \<lparr>HiGreenString = sgr ''92'', HiRedString = sgr ''91'', HiBlueString = sgr ''94'',
           HiBlackString = sgr ''90'', BoldSprintf = sgr ''1''\<rparr>"

section \<open>Lemmas about the control flow and the printer\<close>

lemmas go_defs = return_go_def bind_go_def then_go_def go_panic_def assign_def defer_go_def
  defer_recover_def T_Error_def T_Fatal_def

lemmas eval_defs = NewSuite_def ansi_def sgr_def indent_prefix_def fmt_int_def show_int_def
  show_nat.simps digit_char_def numeral_2_eq_2

lemma println_ok:
  "0 \<le> sint (indent s) \<Longrightarrow>
   println content s =
     (Return (), s\<lparr>stdout := stdout s @ indent_prefix s @ content @ [CHR 0x0A]\<rparr>)"
  by (simp add: println_def)

lemma println_negative:
  "sint (indent s) < 0 \<Longrightarrow>
   println content s = (Panic (VString ''strings: negative Repeat count''), s)"
  by (simp add: println_def go_panic_def)

lemma indent_prefix_update [simp]:
  "indent_prefix (s\<lparr>stdout := x\<rparr>) = indent_prefix s"
  "indent_prefix (s\<lparr>passed := p\<rparr>) = indent_prefix s"
  "indent_prefix (s\<lparr>failed := f\<rparr>) = indent_prefix s"
  "indent_prefix (s\<lparr>skiped := k\<rparr>) = indent_prefix s"
  "indent_prefix (s\<lparr>T := t\<rparr>) = indent_prefix s"
  by (simp_all add: indent_prefix_def)

text \<open>
  With a non-negative indentation the four statements before \<^verbatim>\<open>test()\<close> in \<^verbatim>\<open>Title\<close>
  return, and the body starts in \<open>Title_enter color name s\<close>.
\<close>

lemma Title_prelude:
  assumes "0 \<le> sint (indent s)"
  shows "then_go (println '''') (then_go (title color name) (then_go (println '''')
           (then_go (assign (\<lambda>s. s\<lparr>indent := indent s + 2\<rparr>)) test))) s
         = test (Title_enter color name s)"
  using assms by (simp add: go_defs title_def println_ok Title_enter_def)

lemma Title_unfold:
  assumes "0 \<le> sint (indent s)"
  shows "Title color name test s =
    (case test (Title_enter color name s) of (e, s1) \<Rightarrow> (e, s1\<lparr>indent := indent s1 - 2\<rparr>))"
  unfolding Title_def defer_go_def Title_prelude [OF assms]
  by (simp add: assign_def split: prod.splits)

lemma summary_ok:
  assumes "0 \<le> sint (indent s)"
  shows "summary color s = (Return (), s\<lparr>stdout := stdout s @ summary_text color s\<rparr>)"
  using assms by (simp add: summary_def go_defs println_ok summary_text_def)

lemma Start_unfold:
  assumes "Title color name test s = (e, s1)" and "0 \<le> sint (indent s1)"
  shows "Start color name test s = (e, s1\<lparr>stdout := stdout s1 @ summary_text color s1\<rparr>)"
  using assms by (simp add: Start_def defer_go_def summary_ok)

lemma Title_balanced:
  assumes "0 \<le> sint (indent s)"
      and "indent (snd (test (Title_enter color name s))) = indent (Title_enter color name s)"
      and "test (Title_enter color name s) = (e, s1)"
  shows "Title color name test s = (e, s1\<lparr>indent := indent s\<rparr>)"
proof -
  from assms(2,3) have "indent s1 = indent s + 2"
    by (simp add: Title_enter_def)
  with assms(3) show ?thesis
    by (simp add: Title_unfold [OF assms(1)])
qed

section \<open>What \<^verbatim>\<open>Check\<close> does on each exit of its test\<close>

lemma Check_clean:
  assumes "test s = (Return None, s1)" and "0 \<le> sint (indent s1)"
  shows "Check color name test s =
    (Return (), s1\<lparr>passed := passed s1 + 1,
       stdout := stdout s1 @ indent_prefix s1 @ ''['' @ HiGreenString color ''Done'' @ ''] ''
                   @ name @ [CHR 0x0A]\<rparr>)"
  using assms by (simp add: Check_def go_defs ok_def println_ok)

lemma Check_returned_error:
  assumes "test s = (Return (Some v), s1)" and "0 \<le> sint (indent s1)"
  shows "Check color name test s =
    (Return (), s1\<lparr>failed := failed s1 + 1, passed := passed s1 + 1,
       T := T s1 @ [ErrorCall v],
       stdout := stdout s1
         @ indent_prefix s1 @ ''['' @ HiRedString color ''Fail'' @ ''] '' @ name @ [CHR 0x0A]
         @ indent_prefix s1 @ ''['' @ HiGreenString color ''Done'' @ ''] '' @ name @ [CHR 0x0A]\<rparr>)"
  using assms by (simp add: Check_def go_defs fail_def ok_def println_ok)

lemma Check_suiteError:
  assumes "test s = (Panic (VSuiteError e), s1)" and "0 \<le> sint (indent s1)"
  shows "Check color name test s =
    ((if critical e then Goexit else Return ()),
     s1\<lparr>failed := failed s1 + 1,
        stdout := stdout s1 @ indent_prefix s1 @ ''['' @ HiRedString color ''Fail'' @ ''] ''
                    @ name @ [CHR 0x0A],
        T := T s1 @ [(if critical e then FatalCall else ErrorCall) (VString (msg e))]\<rparr>)"
  using assms by (simp add: Check_def go_defs fail_def println_ok)

lemma Check_other_panic:
  assumes "test s = (Panic v, s1)" and "\<forall>e. v \<noteq> VSuiteError e" and "0 \<le> sint (indent s1)"
  shows "Check color name test s =
    (Return (), s1\<lparr>failed := failed s1 + 1,
       stdout := stdout s1 @ indent_prefix s1 @ ''['' @ HiRedString color ''Fail'' @ ''] ''
                   @ name @ [CHR 0x0A],
       T := T s1 @ [ErrorCall v]\<rparr>)"
  using assms by (cases v) (simp_all add: Check_def go_defs fail_def println_ok)

lemma Check_Goexit:
  assumes "test s = (Goexit, s1)"
  shows "Check color name test s = (Goexit, s1)"
  using assms by (simp add: Check_def go_defs)

text \<open>
  A panic that reaches \<^verbatim>\<open>Check\<close> with a \<^verbatim>\<open>runtime.Goexit\<close> pending behind it is recovered
  and recorded as any other, and then the stop resumes: \<^verbatim>\<open>Check\<close> does not return.
\<close>

lemma Check_PanicInGoexit:
  assumes "test s = (PanicInGoexit v, s1)" and "0 \<le> sint (indent s1)"
  shows "Check color name test s =
    (Goexit,
     s1\<lparr>failed := failed s1 + 1,
        stdout := stdout s1 @ indent_prefix s1 @ ''['' @ HiRedString color ''Fail'' @ ''] ''
                    @ name @ [CHR 0x0A],
        T := T s1 @ [case v of
                       VSuiteError e \<Rightarrow>
                         (if critical e then FatalCall else ErrorCall) (VString (msg e))
                     | _ \<Rightarrow> ErrorCall v]\<rparr>)"
  using assms by (cases v) (simp_all add: Check_def go_defs fail_def println_ok)

section \<open>No operation but \<^verbatim>\<open>Title\<close> touches the indentation\<close>

lemma println_indent: "indent (snd (println content s)) = indent s"
  by (simp add: println_def go_panic_def)

lemma Check_indent:
  assumes "indent (snd (test s)) = indent s"
  shows "indent (snd (Check color name test s)) = indent s"
proof (cases "test s")
  case (Pair e s1)
  with assms have i: "indent s1 = indent s" by simp
  show ?thesis
    using Pair i
    by (auto simp: Check_def go_defs fail_def ok_def println_def
             split: exit.splits option.splits gvalue.splits)
qed

lemma Critical_indent:
  assumes "indent (snd (test s)) = indent s"
  shows "indent (snd (Critical color name test s)) = indent s"
proof (cases "test s")
  case (Pair e s1)
  with assms have i: "indent s1 = indent s" by simp
  show ?thesis
    using Pair i
    by (auto simp: Critical_def Critical_fail_def go_defs fail_def ok_def println_def
             split: exit.splits option.splits)
qed

lemma Skip_indent: "indent (snd (Skip color name test s)) = indent s"
  by (simp add: Skip_def go_defs skip_def println_def)

lemma Info_indent: "indent (snd (Info color content s)) = indent s"
  by (simp add: Info_def info_def println_indent)

lemma Assert_indent: "indent (snd (Assert actual expect s)) = indent s"
  by (simp add: Assert_def go_defs split: sum.splits bool.splits)

lemma then_go_indent:
  assumes "indent (snd (m s)) = indent s"
      and "indent (snd (k (snd (m s)))) = indent (snd (m s))"
  shows "indent (snd (then_go m k s)) = indent s"
  using assms by (cases "m s") (auto simp: go_defs split: exit.splits)

lemma go_panic_indent: "indent (snd (go_panic v s)) = indent s"
  by (simp add: go_panic_def)

lemma Try_indent:
  assumes "indent (snd (try s)) = indent s"
      and "\<And>c v. catch = Some c \<Longrightarrow> indent (snd (c v (snd (try s)))) = indent (snd (try s))"
  shows "indent (snd (Try try catch s)) = indent s"
proof (cases "try s")
  case (Pair e s1)
  with assms(1) have i: "indent s1 = indent s" by simp
  show ?thesis
  proof (cases catch)
    case None
    with Pair i show ?thesis
      by (auto simp: Try_def go_defs split: exit.splits)
  next
    case (Some c)
    have "indent (snd (c v s1)) = indent s" for v
      using assms(2) [OF Some, of v] Pair i by simp
    then have "\<And>v x s2. c v s1 = (x, s2) \<Longrightarrow> indent s2 = indent s"
      by (metis snd_conv)
    with Pair i Some show ?thesis
      by (auto simp: Try_def go_defs split: exit.splits prod.splits)
  qed
qed

section \<open>The claims\<close>

text \<open>
  C1. A \<^verbatim>\<open>Check\<close> whose test returns an error is to count one failure, print one Fail
  line, report the error to the host with \<^verbatim>\<open>t.Error\<close>, leave \<open>passed\<close> alone and print no
  Done line. The code has no \<^verbatim>\<open>return\<close> after \<^verbatim>\<open>s.T.Error(err)\<close>: on the handler
  \<^verbatim>\<open>func(s *Suite) error { return errors.New("denied") }\<close>, run in a fresh suite, it
  counts the check as failed and as passed, and prints both lines.
\<close>

theorem Check_returned_error_counts_passed_too:
  "Check ansi ''login'' (return_go (Some (VErrorPtr 1 ''denied''))) (NewSuite [] []) =
     (Return (),
      \<lparr>T = [ErrorCall (VErrorPtr 1 ''denied'')],
       indent = 0, passed = 1, failed = 1, skiped = 0,
       stdout = ''['' @ sgr ''91'' ''Fail'' @ ''] login'' @ [CHR 0x0A]
              @ ''['' @ sgr ''92'' ''Done'' @ ''] login'' @ [CHR 0x0A]\<rparr>)"
  by (simp add: Check_returned_error [where ?s1.0 = "NewSuite [] []"] return_go_def eval_defs)

text \<open>
  C2. A \<^verbatim>\<open>Check\<close> whose test panics with a value that is not a \<^verbatim>\<open>suiteError\<close> is to
  report it to the host as fatal. The \<^verbatim>\<open>default\<close> branch of the type switch calls
  \<^verbatim>\<open>s.T.Error(err)\<close>: on the handler \<^verbatim>\<open>func(s *Suite) error { panic("boom") }\<close> the
  host gets a non-fatal report and \<^verbatim>\<open>Check\<close> returns, so the next sibling runs.
\<close>

theorem Check_unknown_panic_reported_by_Error:
  "Check ansi ''login'' (go_panic (VString ''boom'')) (NewSuite [] []) =
     (Return (),
      \<lparr>T = [ErrorCall (VString ''boom'')],
       indent = 0, passed = 0, failed = 1, skiped = 0,
       stdout = ''['' @ sgr ''91'' ''Fail'' @ ''] login'' @ [CHR 0x0A]\<rparr>)"
  by (simp add: Check_other_panic [where ?s1.0 = "NewSuite [] []"] go_panic_def eval_defs)

text \<open>
  C3, as amended. For two values that \<^verbatim>\<open>==\<close> can compare (not both of the uncomparable
  type), \<^verbatim>\<open>Assert\<close> returns when they are equal and otherwise panics with the message
  \<^verbatim>\<open>Expect "<expected>", got "<actual>"\<close> itself, a plain string, as the panic's value;
  the state is untouched either way.
\<close>

theorem Assert_panics_with_the_message_string:
  assumes \<open>\<nexists>xs ys. actual = Some (VIntSlice xs) \<and> expect = Some (VIntSlice ys)\<close>
  shows \<open>Assert actual expect s =
           (if actual = expect then (Return (), s)
            else (Panic (VString (''Expect "'' @ fmt_v expect @ ''", got "'' @ fmt_v actual @ ''"'')),
                  s))\<close>
proof -
  from assms have "iface_neq actual expect = Inr (actual \<noteq> expect)"
    by (cases "(actual, expect)" rule: iface_neq.cases) auto
  then show ?thesis
    by (simp add: Assert_def go_defs)
qed

theorem Assert_panics_with_the_message_string_witness:
  \<open>(\<nexists>xs ys. Some (VInt 5) = Some (VIntSlice xs) \<and> Some (VInt 6) = Some (VIntSlice ys))
   \<and> Assert (Some (VInt 5)) (Some (VInt 6)) (NewSuite [] []) =
       (Panic (VString ''Expect "6", got "5"''), NewSuite [] [])
   \<and> Assert (Some (VInt 5)) (Some (VInt 5)) (NewSuite [] []) = (Return (), NewSuite [] [])\<close>
  using Assert_panics_with_the_message_string [of "Some (VInt 5)" "Some (VInt 6)" "NewSuite [] []"]
        Assert_panics_with_the_message_string [of "Some (VInt 5)" "Some (VInt 5)" "NewSuite [] []"]
  by (simp add: eval_defs)

text \<open>
  The counterexample to C3 as it was stated: the value \<^verbatim>\<open>Assert(5, 6)\<close> panics with is not
  the one \<^verbatim>\<open>Fatal\<close> raises with the same message, so that a \<^verbatim>\<open>Check\<close> around it reports a
  non-fatal failure and returns; and \<^verbatim>\<open>Assert\<close> on two equal slices does not return.
\<close>

theorem Assert_raises_no_Fatal_signal:
  \<open>Assert (Some (VInt 5)) (Some (VInt 6)) (NewSuite [] []) \<noteq>
     Fatal ''Expect "6", got "5"'' (NewSuite [] [])
   \<and> Check ansi ''sum'' (then_go (Assert (Some (VInt 5)) (Some (VInt 6))) (return_go None))
        (NewSuite [] []) =
       (Return (),
        \<lparr>T = [ErrorCall (VString ''Expect "6", got "5"'')],
         indent = 0, passed = 0, failed = 1, skiped = 0,
         stdout = ''['' @ sgr ''91'' ''Fail'' @ ''] sum'' @ [CHR 0x0A]\<rparr>)
   \<and> fst (Assert (Some (VIntSlice [1])) (Some (VIntSlice [1])) (NewSuite [] [])) \<noteq> Return ()\<close>
  by (simp add: Assert_def Fatal_def Check_def fail_def println_def go_defs eval_defs)

text \<open>
  C4. \<^verbatim>\<open>Critical\<close>, by the exit of its test: a returned error and a panic of any value
  (the signal of \<^verbatim>\<open>Fail\<close>, the signal of \<^verbatim>\<open>Fatal\<close>, anything else) each add 1 to \<open>failed\<close>,
  print one Fail line and call \<^verbatim>\<open>t.Fatal\<close>, which stops the goroutine, with \<open>passed\<close>
  unchanged; a clean return adds 1 to \<open>passed\<close> and prints one Done line, and nothing else
  does. (A test that has itself stopped the goroutine is passed through; a panic
  raised while the goroutine was being stopped is counted and reported as any other
  panic.) The indentation the test leaves is not negative.
\<close>

theorem Critical_outcomes:
  assumes "0 \<le> sint (indent (snd (test s)))"
  shows "Critical color name test s =
    (case test s of
       (Return None, s1) \<Rightarrow>
         (Return (),
          s1\<lparr>passed := passed s1 + 1,
             stdout := stdout s1 @ indent_prefix s1 @ ''['' @ HiGreenString color ''Done'' @ ''] ''
                         @ name @ [CHR 0x0A]\<rparr>)
     | (Return (Some v), s1) \<Rightarrow>
         (Goexit,
          s1\<lparr>failed := failed s1 + 1,
             stdout := stdout s1 @ indent_prefix s1 @ ''['' @ HiRedString color ''Fail'' @ ''] ''
                         @ name @ [CHR 0x0A],
             T := T s1 @ [FatalCall v]\<rparr>)
     | (Panic v, s1) \<Rightarrow>
         (Goexit,
          s1\<lparr>failed := failed s1 + 1,
             stdout := stdout s1 @ indent_prefix s1 @ ''['' @ HiRedString color ''Fail'' @ ''] ''
                         @ name @ [CHR 0x0A],
             T := T s1 @ [FatalCall v]\<rparr>)
     | (Goexit, s1) \<Rightarrow> (Goexit, s1)
     | (PanicInGoexit v, s1) \<Rightarrow>
         (Goexit,
          s1\<lparr>failed := failed s1 + 1,
             stdout := stdout s1 @ indent_prefix s1 @ ''['' @ HiRedString color ''Fail'' @ ''] ''
                         @ name @ [CHR 0x0A],
             T := T s1 @ [FatalCall v]\<rparr>))
   \<and> (passed (snd (Critical color name test s)) \<noteq> passed (snd (test s))
        \<longleftrightarrow> fst (test s) = Return None)"
  using assms
  by (cases "test s")
     (auto simp: Critical_def Critical_fail_def go_defs fail_def ok_def println_ok
           split: exit.splits option.splits)

theorem Critical_outcomes_witness:
  "0 \<le> sint (indent (snd ((Fail ''bad'' :: iface go) (NewSuite [] []))))
   \<and> Critical ansi ''db'' (Fail ''bad'') (NewSuite [] []) =
       (Goexit,
        \<lparr>T = [FatalCall (VSuiteError \<lparr>critical = False, msg = ''bad''\<rparr>)],
         indent = 0, passed = 0, failed = 1, skiped = 0,
         stdout = ''['' @ sgr ''91'' ''Fail'' @ ''] db'' @ [CHR 0x0A]\<rparr>)"
  using Critical_outcomes [of "Fail ''bad''" "NewSuite [] []" ansi "''db''"]
  by (simp add: Fail_def go_panic_def eval_defs)

text \<open>
  C5. A \<^verbatim>\<open>Check\<close> whose test ends by calling \<^verbatim>\<open>Fail(m)\<close>, with no \<^verbatim>\<open>runtime.Goexit\<close>
  pending (in a state of non-negative indentation), adds 1 to \<open>failed\<close>, prints one Fail
  line, reports \<open>m\<close> to the host with \<^verbatim>\<open>t.Error\<close>, leaves \<open>passed\<close> alone and returns, so
  that the run goes on. When the signal is raised by a deferred call of the test while
  the goroutine is already being stopped (the test has called \<^verbatim>\<open>t.FailNow\<close>, say),
  \<^verbatim>\<open>Check\<close> records the failure in the same way, as non-fatal, and the stop that was
  pending resumes: what ends the run there is that earlier stop, not the signal.
\<close>

theorem Check_recoverable_signal:
  assumes "0 \<le> sint (indent s1)"
  shows "(test s = Fail m s1 \<longrightarrow>
            Check color name test s =
              (Return (),
               s1\<lparr>failed := failed s1 + 1,
                  stdout := stdout s1 @ indent_prefix s1 @ ''['' @ HiRedString color ''Fail''
                              @ ''] '' @ name @ [CHR 0x0A],
                  T := T s1 @ [ErrorCall (VString m)]\<rparr>))
       \<and> (test s = (PanicInGoexit (VSuiteError \<lparr>critical = False, msg = m\<rparr>), s1) \<longrightarrow>
            Check color name test s =
              (Goexit,
               s1\<lparr>failed := failed s1 + 1,
                  stdout := stdout s1 @ indent_prefix s1 @ ''['' @ HiRedString color ''Fail''
                              @ ''] '' @ name @ [CHR 0x0A],
                  T := T s1 @ [ErrorCall (VString m)]\<rparr>))"
  using assms
  by (simp add: Check_def Fail_def go_defs fail_def println_ok)

theorem Check_recoverable_signal_witness:
  "0 \<le> sint (indent (NewSuite [] (sgr ''90'' ''step'' @ [CHR 0x0A])))
   \<and> then_go (Info ansi ''step'') (Fail ''bad'') (NewSuite [] []) =
       (Fail ''bad'' :: iface go) (NewSuite [] (sgr ''90'' ''step'' @ [CHR 0x0A]))
   \<and> Check ansi ''login'' (then_go (Info ansi ''step'') (Fail ''bad'')) (NewSuite [] []) =
       (Return (),
        \<lparr>T = [ErrorCall (VString ''bad'')],
         indent = 0, passed = 0, failed = 1, skiped = 0,
         stdout = sgr ''90'' ''step'' @ [CHR 0x0A]
                @ ''['' @ sgr ''91'' ''Fail'' @ ''] login'' @ [CHR 0x0A]\<rparr>)
   \<and> 0 \<le> sint (indent (NewSuite [FatalCall (VString ''stop'')] []))
   \<and> defer_go (Fail ''late'') (then_go (T_Fatal (VString ''stop'')) (return_go None))
        (NewSuite [] []) =
       (PanicInGoexit (VSuiteError \<lparr>critical = False, msg = ''late''\<rparr>),
        NewSuite [FatalCall (VString ''stop'')] [])
   \<and> Check ansi ''login''
        (defer_go (Fail ''late'') (then_go (T_Fatal (VString ''stop'')) (return_go None)))
        (NewSuite [] []) =
       (Goexit,
        \<lparr>T = [FatalCall (VString ''stop''), ErrorCall (VString ''late'')],
         indent = 0, passed = 0, failed = 1, skiped = 0,
         stdout = ''['' @ sgr ''91'' ''Fail'' @ ''] login'' @ [CHR 0x0A]\<rparr>)"
proof -
  let ?s = "NewSuite [] []"
  let ?test = "then_go (Info ansi ''step'') (Fail ''bad'')"
  let ?s1 = "NewSuite [] (sgr ''90'' ''step'' @ [CHR 0x0A])"
  let ?late = "defer_go (Fail ''late'') (then_go (T_Fatal (VString ''stop'')) (return_go None))"
  let ?s2 = "NewSuite [FatalCall (VString ''stop'')] []"
  have a: "?test ?s = (Fail ''bad'' :: iface go) ?s1"
    by (simp add: Info_def info_def println_def Fail_def go_defs eval_defs)
  have b: "0 \<le> sint (indent ?s1)"
    by (simp add: NewSuite_def)
  have c: "?late ?s = (PanicInGoexit (VSuiteError \<lparr>critical = False, msg = ''late''\<rparr>), ?s2)"
    by (simp add: Fail_def go_defs NewSuite_def)
  have d: "0 \<le> sint (indent ?s2)"
    by (simp add: NewSuite_def)
  note e = Check_recoverable_signal [of ?s1 ?test ?s "''bad''" ansi "''login''", OF b]
  note f = Check_recoverable_signal [of ?s2 ?late ?s "''late''" ansi "''login''", OF d]
  from e a have g: "Check ansi ''login'' ?test ?s =
      (Return (),
       ?s1\<lparr>failed := failed ?s1 + 1,
          stdout := stdout ?s1 @ indent_prefix ?s1 @ ''['' @ HiRedString ansi ''Fail''
                      @ ''] '' @ ''login'' @ [CHR 0x0A],
          T := T ?s1 @ [ErrorCall (VString ''bad'')]\<rparr>)"
    by blast
  from f c have h: "Check ansi ''login'' ?late ?s =
      (Goexit,
       ?s2\<lparr>failed := failed ?s2 + 1,
          stdout := stdout ?s2 @ indent_prefix ?s2 @ ''['' @ HiRedString ansi ''Fail''
                      @ ''] '' @ ''login'' @ [CHR 0x0A],
          T := T ?s2 @ [ErrorCall (VString ''late'')]\<rparr>)"
    by blast
  show ?thesis
    apply (intro conjI)
         apply (rule b)
        apply (rule a)
       apply (subst g)
       apply (simp add: eval_defs)
      apply (rule d)
     apply (rule c)
    apply (subst h)
    apply (simp add: eval_defs)
    done
qed

text \<open>
  C6. \<^verbatim>\<open>Title\<close> and \<^verbatim>\<open>Start\<close> leave the indentation as they found it, however the body
  ended (the statement is about the state left, whatever the exit is). The call starts
  at a non-negative indentation, and the body itself leaves the indentation as it found
  it, as every operation of the suite does.
\<close>

theorem Title_Start_restore_indent:
  assumes "0 \<le> sint (indent s)"
      and "indent (snd (test (Title_enter color name s))) = indent (Title_enter color name s)"
  shows "indent (snd (Title color name test s)) = indent s
       \<and> indent (snd (Start color name test s)) = indent s"
proof -
  obtain e s1 where b: "test (Title_enter color name s) = (e, s1)"
    by (cases "test (Title_enter color name s)")
  have t: "Title color name test s = (e, s1\<lparr>indent := indent s\<rparr>)"
    using assms b by (rule Title_balanced)
  have "Start color name test s =
      (e, s1\<lparr>indent := indent s,
            stdout := stdout s1 @ summary_text color (s1\<lparr>indent := indent s\<rparr>)\<rparr>)"
    using Start_unfold [OF t] assms(1) by simp
  with t show ?thesis by simp
qed

theorem Title_Start_restore_indent_witness:
  "0 \<le> sint (indent (NewSuite [] []))
   \<and> indent (snd (then_go (Check ansi ''a'' (Fatal ''stop'')) (Skip ansi ''b'' (return_go None))
                     (Title_enter ansi ''group'' (NewSuite [] []))))
       = indent (Title_enter ansi ''group'' (NewSuite [] []))
   \<and> fst (Title ansi ''group''
             (then_go (Check ansi ''a'' (Fatal ''stop'')) (Skip ansi ''b'' (return_go None)))
             (NewSuite [] [])) = Goexit
   \<and> indent (snd (Title ansi ''group''
             (then_go (Check ansi ''a'' (Fatal ''stop'')) (Skip ansi ''b'' (return_go None)))
             (NewSuite [] []))) = indent (NewSuite [] [])
   \<and> indent (snd (Start ansi ''group''
             (then_go (Check ansi ''a'' (Fatal ''stop'')) (Skip ansi ''b'' (return_go None)))
             (NewSuite [] []))) = indent (NewSuite [] [])"
proof -
  let ?body = "then_go (Check ansi ''a'' (Fatal ''stop'')) (Skip ansi ''b'' (return_go None))"
  let ?s = "NewSuite [] []"
  have a: "0 \<le> sint (indent ?s)"
    by (simp add: NewSuite_def)
  have c: "?body (Title_enter ansi ''group'' ?s) =
             (Goexit, (Title_enter ansi ''group'' ?s)
                \<lparr>failed := 1,
                 stdout := stdout (Title_enter ansi ''group'' ?s)
                             @ ''  ['' @ sgr ''91'' ''Fail'' @ ''] a'' @ [CHR 0x0A],
                 T := [FatalCall (VString ''stop'')]\<rparr>)"
    by (simp add: Check_def Fatal_def fail_def println_def Title_enter_def go_defs eval_defs)
  have b: "indent (snd (?body (Title_enter ansi ''group'' ?s))) = indent (Title_enter ansi ''group'' ?s)"
    by (simp add: c)
  have d: "fst (Title ansi ''group'' ?body ?s) = Goexit"
    by (simp add: Title_unfold [OF a] c)
  from Title_Start_restore_indent [of ?s ?body ansi "''group''", OF a b] a b d
  show ?thesis by blast
qed

text \<open>
  C7. \<^verbatim>\<open>Start\<close> ends as its \<^verbatim>\<open>Title\<close> ends, whatever that exit is, and adds to the
  output exactly one summary after all that \<^verbatim>\<open>Title\<close> printed: the marker
  \<^verbatim>\<open>=== FINISHED\<close>, the counters under the labels \<^verbatim>\<open>Passed\<close>, \<^verbatim>\<open>Failed\<close>, \<^verbatim>\<open>Skiped\<close> in this
  order, and \<^verbatim>\<open>Total\<close> with the sum of the three (Go's addition on \<^verbatim>\<open>int\<close>). Nothing
  else of the state changes. The hypotheses are those of C6.
\<close>

theorem Start_prints_the_summary_once:
  assumes "0 \<le> sint (indent s)"
      and "indent (snd (test (Title_enter color name s))) = indent (Title_enter color name s)"
      and "Title color name test s = (e, s1)"
  shows "Start color name test s =
    (e, s1\<lparr>stdout := stdout s1
         @ indent_prefix s1 @ [CHR 0x0A] @ ''=== FINISHED'' @ [CHR 0x0A] @ [CHR 0x0A]
         @ indent_prefix s1 @ HiGreenString color ''Passed'' @ '': '' @ fmt_int (passed s1) @ [CHR 0x0A]
         @ indent_prefix s1 @ HiRedString color ''Failed'' @ '': '' @ fmt_int (failed s1) @ [CHR 0x0A]
         @ indent_prefix s1 @ HiBlueString color ''Skiped'' @ '': '' @ fmt_int (skiped s1) @ [CHR 0x0A]
         @ indent_prefix s1 @ [CHR 0x0A] @ ''Total: ''
             @ fmt_int (passed s1 + failed s1 + skiped s1) @ [CHR 0x0A] @ [CHR 0x0A]\<rparr>)"
proof -
  obtain e' s' where b: "test (Title_enter color name s) = (e', s')"
    by (cases "test (Title_enter color name s)")
  have "Title color name test s = (e', s'\<lparr>indent := indent s\<rparr>)"
    using assms(1,2) b by (rule Title_balanced)
  with assms(3) have "indent s1 = indent s"
    by auto
  with assms(1) have "0 \<le> sint (indent s1)"
    by simp
  from Start_unfold [OF assms(3) this] show ?thesis
    by (simp add: summary_text_def)
qed

theorem Start_prints_the_summary_once_witness:
  "0 \<le> sint (indent (NewSuite [] []))
   \<and> indent (snd (then_go (Check ansi ''a'' (return_go None))
                    (then_go (Skip ansi ''b'' (return_go None))
                             (Critical ansi ''c'' (Fatal ''stop'')))
                     (Title_enter ansi ''run'' (NewSuite [] []))))
       = indent (Title_enter ansi ''run'' (NewSuite [] []))
   \<and> Title ansi ''run''
        (then_go (Check ansi ''a'' (return_go None))
        (then_go (Skip ansi ''b'' (return_go None))
                 (Critical ansi ''c'' (Fatal ''stop''))))
        (NewSuite [] []) =
       (Goexit,
        \<lparr>T = [FatalCall (VSuiteError \<lparr>critical = True, msg = ''stop''\<rparr>)],
         indent = 0, passed = 1, failed = 1, skiped = 1,
         stdout = [CHR 0x0A] @ sgr ''1'' ''run'' @ [CHR 0x0A] @ [CHR 0x0A]
                @ ''  ['' @ sgr ''92'' ''Done'' @ ''] a'' @ [CHR 0x0A]
                @ ''  ['' @ sgr ''94'' ''Skip'' @ ''] '' @ sgr ''90'' ''b'' @ [CHR 0x0A]
                @ ''  ['' @ sgr ''91'' ''Fail'' @ ''] c'' @ [CHR 0x0A]\<rparr>)
   \<and> Start ansi ''run''
        (then_go (Check ansi ''a'' (return_go None))
        (then_go (Skip ansi ''b'' (return_go None))
                 (Critical ansi ''c'' (Fatal ''stop''))))
        (NewSuite [] []) =
       (Goexit,
        \<lparr>T = [FatalCall (VSuiteError \<lparr>critical = True, msg = ''stop''\<rparr>)],
         indent = 0, passed = 1, failed = 1, skiped = 1,
         stdout = [CHR 0x0A] @ sgr ''1'' ''run'' @ [CHR 0x0A] @ [CHR 0x0A]
                @ ''  ['' @ sgr ''92'' ''Done'' @ ''] a'' @ [CHR 0x0A]
                @ ''  ['' @ sgr ''94'' ''Skip'' @ ''] '' @ sgr ''90'' ''b'' @ [CHR 0x0A]
                @ ''  ['' @ sgr ''91'' ''Fail'' @ ''] c'' @ [CHR 0x0A]
                @ [CHR 0x0A] @ ''=== FINISHED'' @ [CHR 0x0A] @ [CHR 0x0A]
                @ sgr ''92'' ''Passed'' @ '': 1'' @ [CHR 0x0A]
                @ sgr ''91'' ''Failed'' @ '': 1'' @ [CHR 0x0A]
                @ sgr ''94'' ''Skiped'' @ '': 1'' @ [CHR 0x0A]
                @ [CHR 0x0A] @ ''Total: 3'' @ [CHR 0x0A] @ [CHR 0x0A]\<rparr>)"
proof -
  let ?body = "then_go (Check ansi ''a'' (return_go None))
              (then_go (Skip ansi ''b'' (return_go None))
                       (Critical ansi ''c'' (Fatal ''stop'')))"
  let ?s = "NewSuite [] []"
  let ?s1 = "\<lparr>T = [FatalCall (VSuiteError \<lparr>critical = True, msg = ''stop''\<rparr>)],
         indent = 0, passed = 1, failed = 1, skiped = 1,
         stdout = [CHR 0x0A] @ sgr ''1'' ''run'' @ [CHR 0x0A] @ [CHR 0x0A]
                @ ''  ['' @ sgr ''92'' ''Done'' @ ''] a'' @ [CHR 0x0A]
                @ ''  ['' @ sgr ''94'' ''Skip'' @ ''] '' @ sgr ''90'' ''b'' @ [CHR 0x0A]
                @ ''  ['' @ sgr ''91'' ''Fail'' @ ''] c'' @ [CHR 0x0A]\<rparr>"
  have a: "0 \<le> sint (indent ?s)"
    by (simp add: NewSuite_def)
  have b: "indent (snd (?body (Title_enter ansi ''run'' ?s))) = indent (Title_enter ansi ''run'' ?s)"
    by (simp add: Check_def Skip_def Critical_def Critical_fail_def Fatal_def fail_def ok_def
          skip_def println_def Title_enter_def go_defs eval_defs)
  have c: "Title ansi ''run'' ?body ?s = (Goexit, ?s1)"
    by (simp add: Title_def title_def Check_def Skip_def Critical_def Critical_fail_def Fatal_def
          fail_def ok_def skip_def println_def go_defs eval_defs)
  note d = Start_prints_the_summary_once [of ?s ?body ansi "''run''" Goexit ?s1, OF a b c]
  show ?thesis
    apply (intro conjI)
       apply (rule a)
      apply (rule b)
     apply (rule c)
    apply (subst d)
    apply (simp add: eval_defs)
    done
qed

text \<open>
  C8. \<^verbatim>\<open>Try\<close> returns \<^verbatim>\<open>true\<close> exactly when \<^verbatim>\<open>try\<close> returned. When \<^verbatim>\<open>try\<close> panicked with
  \<open>v\<close> in state \<open>s1\<close> and no \<^verbatim>\<open>runtime.Goexit\<close> is pending, the panic is caught: without a
  \<^verbatim>\<open>catch\<close>, \<^verbatim>\<open>Try\<close> returns \<^verbatim>\<open>false\<close> in \<open>s1\<close>; with \<^verbatim>\<open>catch\<close>, \<^verbatim>\<open>Try\<close> is the call
  \<^verbatim>\<open>catch(v)\<close> in \<open>s1\<close> followed by the result \<^verbatim>\<open>false\<close>, so it returns \<^verbatim>\<open>false\<close> once \<^verbatim>\<open>catch\<close>
  has returned. \<^verbatim>\<open>Try\<close> itself raises nothing. When \<^verbatim>\<open>try\<close> stopped the goroutine
  (\<^verbatim>\<open>runtime.Goexit\<close>, as \<^verbatim>\<open>t.Fatal\<close> does), \<^verbatim>\<open>Try\<close> does not return and \<^verbatim>\<open>catch\<close> is not
  called; when a deferred call of \<^verbatim>\<open>try\<close> panicked while the goroutine was being
  stopped, the panic is caught and \<^verbatim>\<open>catch\<close> called in the same way, and then the stop
  resumes: \<^verbatim>\<open>Try\<close> does not return.
\<close>

theorem Try_catches_every_panic:
  "(fst (Try try catch s) = Return True \<longleftrightarrow> fst (try s) = Return ())
   \<and> (try s = (Return (), s1) \<longrightarrow> Try try catch s = (Return True, s1))
   \<and> (try s = (Panic v, s1) \<longrightarrow>
        Try try None s = (Return False, s1)
      \<and> Try try (Some c) s = then_go (c v) (return_go False) s1
      \<and> (c v s1 = (Return (), s2) \<longrightarrow> Try try (Some c) s = (Return False, s2)))
   \<and> (try s = (Goexit, s1) \<longrightarrow> Try try catch s = (Goexit, s1))
   \<and> (try s = (PanicInGoexit v, s1) \<longrightarrow>
        Try try None s = (Goexit, s1)
      \<and> Try try (Some c) s =
          (resume_Goexit (fst (c v s1)), snd (c v s1))
      \<and> (c v s1 = (Return (), s2) \<longrightarrow> Try try (Some c) s = (Goexit, s2)))"
  by (cases "try s"; cases catch; cases "c v s1")
     (auto simp: Try_def go_defs split: exit.splits option.splits prod.splits)

theorem Try_catches_every_panic_witness:
  "(Fatal ''stop'' :: unit go) (NewSuite [] []) =
     (Panic (VSuiteError \<lparr>critical = True, msg = ''stop''\<rparr>), NewSuite [] [])
   \<and> Info ansi ''caught'' (NewSuite [] []) =
       (Return (), NewSuite [] (sgr ''90'' ''caught'' @ [CHR 0x0A]))
   \<and> Try (Fatal ''stop'') None (NewSuite [] []) = (Return False, NewSuite [] [])
   \<and> Try (Fatal ''stop'') (Some (\<lambda>v. Info ansi ''caught'')) (NewSuite [] []) =
       (Return False, NewSuite [] (sgr ''90'' ''caught'' @ [CHR 0x0A]))
   \<and> fst (Try (Fatal ''stop'') None (NewSuite [] [])) \<noteq> Return True
   \<and> T_Fatal (VString ''stop'') (NewSuite [] []) =
       (Goexit, NewSuite [FatalCall (VString ''stop'')] [])
   \<and> Try (T_Fatal (VString ''stop'')) (Some (\<lambda>v. Info ansi ''caught'')) (NewSuite [] []) =
       (Goexit, NewSuite [FatalCall (VString ''stop'')] [])
   \<and> defer_go (Fail ''late'') (T_Fatal (VString ''stop'')) (NewSuite [] []) =
       (PanicInGoexit (VSuiteError \<lparr>critical = False, msg = ''late''\<rparr>),
        NewSuite [FatalCall (VString ''stop'')] [])
   \<and> Info ansi ''caught'' (NewSuite [FatalCall (VString ''stop'')] []) =
       (Return (), NewSuite [FatalCall (VString ''stop'')] (sgr ''90'' ''caught'' @ [CHR 0x0A]))
   \<and> Try (defer_go (Fail ''late'') (T_Fatal (VString ''stop'')))
        (Some (\<lambda>v. Info ansi ''caught'')) (NewSuite [] []) =
       (Goexit, NewSuite [FatalCall (VString ''stop'')] (sgr ''90'' ''caught'' @ [CHR 0x0A]))"
proof -
  let ?s = "NewSuite [] []"
  let ?v = "VSuiteError \<lparr>critical = True, msg = ''stop''\<rparr>"
  let ?w = "VSuiteError \<lparr>critical = False, msg = ''late''\<rparr>"
  let ?c = "\<lambda>v :: gvalue. Info ansi ''caught''"
  let ?s1 = "NewSuite [] (sgr ''90'' ''caught'' @ [CHR 0x0A])"
  let ?s2 = "NewSuite [FatalCall (VString ''stop'')] []"
  let ?s3 = "NewSuite [FatalCall (VString ''stop'')] (sgr ''90'' ''caught'' @ [CHR 0x0A])"
  let ?late = "defer_go (Fail ''late'') (T_Fatal (VString ''stop''))"
  have a: "(Fatal ''stop'' :: unit go) ?s = (Panic ?v, ?s)"
    by (simp add: Fatal_def go_panic_def)
  have b: "Info ansi ''caught'' ?s = (Return (), ?s1)"
    by (simp add: Info_def info_def println_def eval_defs)
  have a2: "T_Fatal (VString ''stop'') ?s = (Goexit, ?s2)"
    by (simp add: T_Fatal_def NewSuite_def)
  have a3: "?late ?s = (PanicInGoexit ?w, ?s2)"
    by (simp add: Fail_def go_defs NewSuite_def)
  have b3: "Info ansi ''caught'' ?s2 = (Return (), ?s3)"
    by (simp add: Info_def info_def println_def eval_defs)
  note t = Try_catches_every_panic [of "Fatal ''stop''" None ?s ?s ?v ?c ?s1]
  note t2 = Try_catches_every_panic [of "T_Fatal (VString ''stop'')" "Some ?c" ?s ?s2 ?v ?c ?s1]
  note t3 = Try_catches_every_panic [of ?late None ?s ?s2 ?w ?c ?s3]
  from t a have c: "Try (Fatal ''stop'') None ?s = (Return False, ?s)"
    by blast
  from t a b have d: "Try (Fatal ''stop'') (Some ?c) ?s = (Return False, ?s1)"
    by blast
  from t have "fst (Try (Fatal ''stop'') None ?s) = Return True \<longleftrightarrow>
      fst (Fatal ''stop'' ?s) = Return ()"
    by blast
  with a have e: "fst (Try (Fatal ''stop'') None ?s) \<noteq> Return True"
    by simp
  from t2 a2 have f: "Try (T_Fatal (VString ''stop'')) (Some ?c) ?s = (Goexit, ?s2)"
    by blast
  from t3 a3 b3 have g: "Try ?late (Some ?c) ?s = (Goexit, ?s3)"
    by blast
  from a b c d e a2 f a3 b3 g show ?thesis
    by blast
qed

text \<open>
  C9. \<^verbatim>\<open>Skip\<close> adds 1 to \<open>skiped\<close> and prints one Skip line for the name (at a
  non-negative indentation); the test is not called: what \<^verbatim>\<open>Skip\<close> leaves does not depend
  on it.
\<close>

theorem Skip_never_calls_the_test:
  assumes "0 \<le> sint (indent s)"
  shows "Skip color name test s =
           (Return (),
            s\<lparr>skiped := skiped s + 1,
              stdout := stdout s @ indent_prefix s @ ''['' @ HiBlueString color ''Skip'' @ ''] ''
                          @ HiBlackString color name @ [CHR 0x0A]\<rparr>)
       \<and> (\<forall>test'. Skip color name test' s = Skip color name test s)"
  using assms by (simp add: Skip_def go_defs skip_def println_ok)

theorem Skip_never_calls_the_test_witness:
  "0 \<le> sint (indent (NewSuite [] []))
   \<and> Skip ansi ''later''
        (then_go (assign (\<lambda>s. s\<lparr>failed := 99, stdout := stdout s @ ''probe''\<rparr>)) (Fatal ''stop''))
        (NewSuite [] []) =
       (Return (),
        \<lparr>T = [], indent = 0, passed = 0, failed = 0, skiped = 1,
         stdout = ''['' @ sgr ''94'' ''Skip'' @ ''] '' @ sgr ''90'' ''later'' @ [CHR 0x0A]\<rparr>)"
  using Skip_never_calls_the_test
          [of "NewSuite [] []" ansi "''later''"
              "then_go (assign (\<lambda>s. s\<lparr>failed := 99, stdout := stdout s @ ''probe''\<rparr>)) (Fatal ''stop'')"]
  by (simp add: eval_defs)

text \<open>
  C10. A body of \<^verbatim>\<open>Title\<close> that panics with a \<^verbatim>\<open>suiteError\<close> (the value \<^verbatim>\<open>Fail\<close> and \<^verbatim>\<open>Fatal\<close>
  raise) outside every \<^verbatim>\<open>Check\<close>, \<^verbatim>\<open>Critical\<close> and \<^verbatim>\<open>Try\<close>: neither \<^verbatim>\<open>Title\<close> nor \<^verbatim>\<open>Start\<close>
  recovers, so the call panics with that value. With \<open>s1\<close> the state in which the body
  raised it (at the body's indentation), \<^verbatim>\<open>Title\<close> leaves \<open>s1\<close> with the indentation
  restored and nothing else changed: no counter moves, no line is printed, the host
  hears nothing. \<^verbatim>\<open>Start\<close> leaves the same with the summary printed after it.
\<close>

theorem signal_escapes_Title_and_Start:
  assumes "0 \<le> sint (indent s)"
      and "test (Title_enter color name s) = go_panic (VSuiteError e) s1"
      and "indent s1 = indent s + 2"
  shows "Title color name test s = (Panic (VSuiteError e), s1\<lparr>indent := indent s\<rparr>)
       \<and> Start color name test s =
           (Panic (VSuiteError e),
            s1\<lparr>indent := indent s,
               stdout := stdout s1 @ summary_text color (s1\<lparr>indent := indent s\<rparr>)\<rparr>)"
proof -
  from assms(2) have b: "test (Title_enter color name s) = (Panic (VSuiteError e), s1)"
    by (simp add: go_panic_def)
  with assms(3) have t: "Title color name test s = (Panic (VSuiteError e), s1\<lparr>indent := indent s\<rparr>)"
    by (simp add: Title_unfold [OF assms(1)])
  from Start_unfold [OF t] assms(1) t show ?thesis
    by simp
qed

theorem signal_escapes_Title_and_Start_witness:
  "0 \<le> sint (indent (NewSuite [] []))
   \<and> (Fail ''bad'' :: unit go) (Title_enter ansi ''group'' (NewSuite [] [])) =
       go_panic (VSuiteError \<lparr>critical = False, msg = ''bad''\<rparr>)
         (Title_enter ansi ''group'' (NewSuite [] []))
   \<and> indent (Title_enter ansi ''group'' (NewSuite [] [])) = indent (NewSuite [] []) + 2
   \<and> Title ansi ''group'' (Fail ''bad'') (NewSuite [] []) =
       (Panic (VSuiteError \<lparr>critical = False, msg = ''bad''\<rparr>),
        \<lparr>T = [], indent = 0, passed = 0, failed = 0, skiped = 0,
         stdout = [CHR 0x0A] @ sgr ''1'' ''group'' @ [CHR 0x0A] @ [CHR 0x0A]\<rparr>)
   \<and> Start ansi ''group'' (Fail ''bad'') (NewSuite [] []) =
       (Panic (VSuiteError \<lparr>critical = False, msg = ''bad''\<rparr>),
        \<lparr>T = [], indent = 0, passed = 0, failed = 0, skiped = 0,
         stdout = [CHR 0x0A] @ sgr ''1'' ''group'' @ [CHR 0x0A] @ [CHR 0x0A]
                @ [CHR 0x0A] @ ''=== FINISHED'' @ [CHR 0x0A] @ [CHR 0x0A]
                @ sgr ''92'' ''Passed'' @ '': 0'' @ [CHR 0x0A]
                @ sgr ''91'' ''Failed'' @ '': 0'' @ [CHR 0x0A]
                @ sgr ''94'' ''Skiped'' @ '': 0'' @ [CHR 0x0A]
                @ [CHR 0x0A] @ ''Total: 0'' @ [CHR 0x0A] @ [CHR 0x0A]\<rparr>)"
proof -
  let ?s = "NewSuite [] []"
  let ?e = "\<lparr>critical = False, msg = ''bad''\<rparr>"
  let ?s1 = "Title_enter ansi ''group'' ?s"
  have a: "0 \<le> sint (indent ?s)"
    by (simp add: NewSuite_def)
  have b: "(Fail ''bad'' :: unit go) ?s1 = go_panic (VSuiteError ?e) ?s1"
    by (simp add: Fail_def)
  have c: "indent ?s1 = indent ?s + 2"
    by (simp add: Title_enter_def)
  note d = signal_escapes_Title_and_Start [of ?s "Fail ''bad''" ansi "''group''" ?e ?s1, OF a b c]
  show ?thesis
    apply (intro conjI)
        apply (rule a)
       apply (rule b)
      apply (rule c)
     apply (subst d [THEN conjunct1])
     apply (simp add: Title_enter_def eval_defs)
    apply (subst d [THEN conjunct2])
    apply (simp add: Title_enter_def summary_text_def eval_defs)
    done
qed

end
